theory Spec2Isabelle
  imports Complex_Main
begin

section \<open>Python exceptions\<close>

text \<open>
  Both scripts are Python. An exception is a value; a computation that may raise returns
  \<open>exn + 'a\<close>, with \<open>Inl\<close> for the exception that leaves it.

  \<open>Failure cls msg\<close> is an instance of (a subclass of) \<open>Exception\<close>: \<open>cls\<close> is the name
  of its class (\<open>FileNotFoundError\<close>, \<open>OSError\<close>, \<open>ZeroDivisionError\<close>, ...) and \<open>msg\<close> is
  what \<open>str(e)\<close> gives. \<open>SystemExit code\<close> stands for the exceptions that derive from
  \<open>BaseException\<close> without deriving from \<open>Exception\<close>: they ask the interpreter to stop
  and are no failures of the operation that was running.
\<close>

datatype exn =
    is_Exception: Failure (cls: string) (str: string)
  | SystemExit nat

section \<open>Observable effects\<close>

type_synonym path = string

record image =
  width :: int
  height :: int

text \<open>
  What a script prints, line by line. The values that the source formats into the line
  are kept as they are, not as text.
\<close>

datatype line =
    Created path "int \<times> int"  \<comment> \<open>\<open>Created {output_path} with size {img_with_border.size}\<close>\<close>
  | Width_Ratio rat  \<comment> \<open>\<open>Width Ratio: {ratio}\<close>\<close>
  | Error string  \<comment> \<open>\<open>Error: {e}\<close>\<close>
  | Merged nat path  \<comment> \<open>\<open>Successfully merged {n} objects into {path}\<close>\<close>

section \<open>BorderPadder\<close>

subsection \<open>The image library and the file system, as the script sees them\<close>

text \<open>
  \<open>add_border\<close> calls three operations of the Pillow library: \<open>Image.open\<close>,
  \<open>ImageOps.expand\<close> and \<open>Image.save\<close>. Each of them can raise, for reasons that lie in the
  files and the machine (a missing file, an unknown format, a truncated raster that only
  fails when it is decoded, a full disk). The record below is that environment: what
  \<open>Image.open\<close> gives for a path, and whether \<open>expand\<close> and \<open>save\<close> raise.

  An image is its width and height in pixels; its raster is not represented.
\<close>

record pillow =
  Image_open :: "path \<Rightarrow> exn + image"
  expand_raises :: "image \<Rightarrow> int \<times> int \<Rightarrow> exn option"
  save_raises :: "image \<Rightarrow> path \<Rightarrow> exn option"

definition im_size :: "image \<Rightarrow> int \<times> int" where
  \<comment> \<open>the attribute \<open>size\<close> of an image\<close>
  "im_size im = (width im, height im)"

text \<open>
  \<open>ImageOps.expand(image, border=(a, b), fill)\<close>: a border given as a pair is \<open>a\<close> pixels on
  the left and on the right and \<open>b\<close> pixels at the top and at the bottom. The new image is
  created with the enlarged size (Pillow refuses a negative one with a \<open>ValueError\<close>), filled
  with \<open>fill\<close>, and the old image is pasted at \<open>(left, top)\<close>. The fill colour only decides
  the raster.
\<close>

definition expand :: "pillow \<Rightarrow> image \<Rightarrow> int \<times> int \<Rightarrow> string \<Rightarrow> exn + image" where
  "expand env im border fill =
     (case expand_raises env im border of
        Some e \<Rightarrow> Inl e
      | None \<Rightarrow>
          (let (left, top) = border; right = left; bottom = top;
               w = left + width im + right;
               h = top + height im + bottom
           in if w < 0 \<or> h < 0
              then Inl (Failure ''ValueError'' ''Width and height must be >= 0'')
              else Inr \<lparr>width = w, height = h\<rparr>))"

datatype effect =
    Print line  \<comment> \<open>a line on standard output\<close>
  | Write path image  \<comment> \<open>\<open>save\<close> returned: the file at the path holds the image\<close>
  | Write_failed path  \<comment> \<open>\<open>save\<close> raised: the file at the path is missing or corrupt\<close>

subsection \<open>Numbers\<close>

text \<open>
  \<open>border_ratio\<close> is a number; it is taken as a rational, which every Python \<open>int\<close>,
  \<open>Fraction\<close> and finite \<open>float\<close> is. Products and quotients are the exact ones: the
  rounding of binary floating point is not represented.

  \<open>int(x)\<close> of a number truncates towards zero.
\<close>

definition py_int :: "rat \<Rightarrow> int" where
  "py_int x = (if 0 \<le> x then \<lfloor>x\<rfloor> else \<lceil>x\<rceil>)"

definition truediv :: "int \<Rightarrow> int \<Rightarrow> exn + rat" where
  \<comment> \<open>\<open>a / b\<close> on two \<open>int\<close>s\<close>
  "truediv a b =
     (if b = 0 then Inl (Failure ''ZeroDivisionError'' ''division by zero'')
      else Inr (of_int a / of_int b))"

subsection \<open>\<open>add_border\<close>\<close>

text \<open>
  The body of the \<open>try\<close> statement. It returns the exception that leaves it, if any, and
  the effects it had until then.
\<close>

definition try_body :: "pillow \<Rightarrow> path \<Rightarrow> path \<Rightarrow> rat \<Rightarrow> (exn + unit) \<times> effect list" where
  "try_body env input_path output_path border_ratio =
     (case Image_open env input_path of
        Inl e \<Rightarrow> (Inl e, [])
      | Inr img \<Rightarrow>
          (let border_width = py_int (of_int (width img) * border_ratio);
               border_height = py_int (of_int (height img) * border_ratio)
           in case expand env img (border_width, border_height) ''white'' of
                Inl e \<Rightarrow> (Inl e, [])
              | Inr img_with_border \<Rightarrow>
                  (case save_raises env img_with_border output_path of
                     Some e \<Rightarrow> (Inl e, [Write_failed output_path])
                   | None \<Rightarrow>
                       (let done = [Write output_path img_with_border,
                                    Print (Created output_path (im_size img_with_border))]
                        in case truediv (width img + 2 * border_width) (width img) of
                             Inl e \<Rightarrow> (Inl e, done)
                           | Inr ratio \<Rightarrow> (Inr (), done @ [Print (Width_Ratio ratio)])))))"

text \<open>
  \<open>except Exception as e\<close> catches the instances of \<open>Exception\<close> and nothing else; the
  handler prints one line. \<open>add_border\<close> returns \<open>Inr ()\<close> when it returns normally.
\<close>

definition add_border :: "pillow \<Rightarrow> path \<Rightarrow> path \<Rightarrow> rat \<Rightarrow> (exn + unit) \<times> effect list" where
  "add_border env input_path output_path border_ratio =
     (case try_body env input_path output_path border_ratio of
        (Inr u, effects) \<Rightarrow> (Inr u, effects)
      | (Inl e, effects) \<Rightarrow>
          if is_Exception e then (Inr (), effects @ [Print (Error (str e))])
          else (Inl e, effects))"


section \<open>JsonMerger\<close>

subsection \<open>Objects\<close>

text \<open>
  \<open>data1\<close>, \<open>data2\<close> and \<open>data3\<close> are names bound to objects that the three data modules
  built. A Python list holds references to its entries and \<open>+\<close> on lists builds a new list
  object, so the objects live in a store: the heap is the sequence of all objects made so
  far and an address is a position in it. A new object goes to the end, so its address is
  one that nothing refers to yet.

  An object is a list of references or anything else; for anything else (the records
  are such objects) the heap keeps a value of type \<open>'r\<close> that the script has no operation
  on.
\<close>

type_synonym addr = nat

datatype 'r obj = PyList "addr list" | Record 'r

type_synonym 'r heap = "'r obj list"

definition lookup :: "'r heap \<Rightarrow> addr \<Rightarrow> 'r obj option" where
  "lookup h a = (if a < length h then Some (h ! a) else None)"

text \<open>
  \<open>a + b\<close>. Two lists give a new list with the entries of \<open>a\<close>, then those of \<open>b\<close>; the
  operands stay as they are. Anything else raises: a name bound to nothing is a
  \<open>NameError\<close>, a list and a record, or two records, a \<open>TypeError\<close>.
\<close>

definition add :: "'r heap \<Rightarrow> addr \<Rightarrow> addr \<Rightarrow> exn + addr \<times> 'r heap" where
  "add h a b =
     (case (lookup h a, lookup h b) of
        (None, _) \<Rightarrow> Inl (Failure ''NameError'' ''name is not defined'')
      | (_, None) \<Rightarrow> Inl (Failure ''NameError'' ''name is not defined'')
      | (Some (PyList xs), Some (PyList ys)) \<Rightarrow> Inr (length h, h @ [PyList (xs @ ys)])
      | (Some (PyList xs), Some (Record r)) \<Rightarrow>
          Inl (Failure ''TypeError'' ''can only concatenate list to list'')
      | (Some (Record r), _) \<Rightarrow>
          Inl (Failure ''TypeError'' ''unsupported operand type(s) for +''))"

definition len :: "'r heap \<Rightarrow> addr \<Rightarrow> nat" where
  \<comment> \<open>\<open>len\<close> of a list object\<close>
  "len h a = (case lookup h a of Some (PyList xs) \<Rightarrow> length xs | _ \<Rightarrow> 0)"

definition items :: "'r heap \<Rightarrow> addr \<Rightarrow> addr list" where
  \<comment> \<open>the entries of a list object, in order\<close>
  "items h a = (case lookup h a of Some (PyList xs) \<Rightarrow> xs | _ \<Rightarrow> [])"

subsection \<open>The file system and the serializer\<close>

text \<open>
  \<open>open(path, 'w')\<close> and \<open>json.dump\<close> can raise: the first when the file cannot be created,
  the second when an entry has no JSON form or the write fails.
\<close>

record 'r system =
  open_raises :: "path \<Rightarrow> exn option"
  dump_raises :: "'r heap \<Rightarrow> addr \<Rightarrow> exn option"

datatype merge_effect =
    Opened path  \<comment> \<open>\<open>open(path, 'w')\<close> returned: the file exists and is empty\<close>
  | Dumped path "addr list" nat
      \<comment> \<open>\<open>json.dump\<close> returned: the file holds, with the given indent, the JSON array of the
          objects at these addresses, in this order\<close>
  | Printed line

subsection \<open>The script\<close>

text \<open>
  The script has no \<open>try\<close>: what an operation raises is what the script ends with. The
  result is the exception that ended it (or \<open>Inr ()\<close>), the heap, and the effects it
  had.
\<close>

definition merge_json ::
  "'r system \<Rightarrow> 'r heap \<Rightarrow> addr \<Rightarrow> addr \<Rightarrow> addr \<Rightarrow> (exn + unit) \<times> 'r heap \<times> merge_effect list" where
  "merge_json env h data1 data2 data3 =
     (case add h data1 data2 of
        Inl e \<Rightarrow> (Inl e, h, [])
      | Inr (tmp, h1) \<Rightarrow>
          (case add h1 tmp data3 of
             Inl e \<Rightarrow> (Inl e, h1, [])
           | Inr (full_data, h2) \<Rightarrow>
               (case open_raises env ''public/scene.json'' of
                  Some e \<Rightarrow> (Inl e, h2, [])
                | None \<Rightarrow>
                    (case dump_raises env h2 full_data of
                       Some e \<Rightarrow> (Inl e, h2, [Opened ''public/scene.json''])
                     | None \<Rightarrow>
                         (Inr (), h2,
                          [Opened ''public/scene.json'',
                           Dumped ''public/scene.json'' (items h2 full_data) 2,
                           Printed (Merged (len h2 full_data) ''public/scene.json'')])))))"

text \<open>
  The status of the process: 0 after a normal end, 1 after an uncaught exception (the
  interpreter prints the traceback), and the requested code after \<open>SystemExit\<close>.
\<close>

fun exit_status :: "exn + unit \<Rightarrow> nat" where
  "exit_status (Inr u) = 0"
| "exit_status (Inl (Failure c m)) = 1"
| "exit_status (Inl (SystemExit code)) = code"

subsection \<open>Python values\<close>

text \<open>
  What a record can be made of, as far as JSON knows it: \<open>None\<close>, booleans, integers,
  floats, strings, lists, tuples, and dicts with strings as keys (in the order of
  insertion). A string is the list of its characters, taken among the code points
  below 256. A float is kept as the text that \<open>repr\<close> gives for it, which is what
  \<open>json.dump\<close> writes and what \<open>float\<close> reads back to the same float; its binary
  value is not represented.
\<close>

datatype pyval =
    VNone | VBool bool | VInt int | VFloat string | VStr string
  | VList "pyval list" | VTuple "pyval list" | VDict "(string \<times> pyval) list"

subsection \<open>\<open>json.dump\<close> with an indent\<close>



definition newline :: char where "newline = CHR 0x0A"











subsection \<open>\<open>json.load\<close>\<close>

















subsection \<open>The document that the script writes\<close>



subsection \<open>Values that JSON keeps\<close>





text \<open>
  For the proofs: the text after a value in a document starts with \<open>,\<close> or a new line
  (\<open>delimited\<close>), the recursion that a value needs (\<open>cost\<close>), and the characters a value
  can start with (\<open>start_char\<close>).
\<close>

definition delimited :: "string \<Rightarrow> bool" where
  "delimited r = (case r of [] \<Rightarrow> True | c # _ \<Rightarrow> c = CHR '','' \<or> c = newline)"



section \<open>Sample inputs\<close>

text \<open>
  Concrete environments and objects, on which the theorems below are instantiated: an
  image library that knows one 10 by 7 image and never fails otherwise; a heap with the
  three records \<open>{"id": 1}\<close>, \<open>{"id": 2}\<close>, \<open>{"id": 3}\<close> and the three lists
  \<open>[{"id": 1}]\<close>, \<open>[{"id": 2}, {"id": 3}]\<close>, \<open>[]\<close> at the addresses 3, 4 and 5; a heap
  whose only record is \<open>{"position": (0, 1)}\<close>; a file system that accepts every write
  and one that refuses to create the output file.
\<close>

definition sample_pillow :: pillow where
  "sample_pillow =
     \<lparr>Image_open = (\<lambda>p. if p = ''public/tag25h9-origin.png''
                          then Inr \<lparr>width = 10, height = 7\<rparr>
                          else Inl (Failure ''FileNotFoundError'' ''No such file or directory'')),
      expand_raises = (\<lambda>im b. None),
      save_raises = (\<lambda>im p. None)\<rparr>"

definition scene_heap :: "pyval heap" where
  "scene_heap =
     [Record (VDict [(''id'', VInt 1)]), Record (VDict [(''id'', VInt 2)]),
      Record (VDict [(''id'', VInt 3)]), PyList [0], PyList [1, 2], PyList []]"


definition sample_system :: "'r system" where
  "sample_system = \<lparr>open_raises = (\<lambda>p. None), dump_raises = (\<lambda>h a. None)\<rparr>"

definition readonly_system :: "'r system" where
  "readonly_system =
     \<lparr>open_raises = (\<lambda>p. Some (Failure ''PermissionError'' ''Permission denied'')),
      dump_raises = (\<lambda>h a. None)\<rparr>"

section \<open>Properties of BorderPadder\<close>


lemma expand_size:
  "expand env im (a, b) fill = Inr out \<Longrightarrow>
   out = \<lparr>width = width im + 2 * a, height = height im + 2 * b\<rparr>"
  by (auto simp: expand_def Let_def split: option.splits if_splits)

lemma expand_ok:
  "expand_raises env im (a, b) = None \<Longrightarrow> 0 \<le> width im + 2 * a \<Longrightarrow> 0 \<le> height im + 2 * b \<Longrightarrow>
   expand env im (a, b) fill = Inr \<lparr>width = width im + 2 * a, height = height im + 2 * b\<rparr>"
  by (simp add: expand_def Let_def)

lemma try_body_effects:
  assumes "Image_open env i = Inr img"
  shows "snd (try_body env i o' r) =
    (case expand env img (py_int (of_int (width img) * r), py_int (of_int (height img) * r)) ''white'' of
       Inl e \<Rightarrow> []
     | Inr out \<Rightarrow>
        (case save_raises env out o' of
           Some e \<Rightarrow> [Write_failed o']
         | None \<Rightarrow> [Write o' out, Print (Created o' (im_size out))] @
             (if width img = 0 then []
              else [Print (Width_Ratio (of_int (width img + 2 * py_int (of_int (width img) * r)) / of_int (width img)))])))"
  using assms
  by (simp add: try_body_def Let_def truediv_def split: sum.splits option.splits)

lemma add_border_effects:
  "snd (add_border env i o' r) =
     snd (try_body env i o' r) @
     (case fst (try_body env i o' r) of
        Inl e \<Rightarrow> if is_Exception e then [Print (Error (str e))] else []
      | Inr u \<Rightarrow> [])"
  by (simp add: add_border_def split: prod.splits sum.splits)

lemma add_border_written:
  assumes "Image_open env i = Inr img"
    and "Write p out \<in> set (snd (add_border env i o' r))"
  shows "p = o' \<and> out = \<lparr>width = width img + 2 * py_int (of_int (width img) * r),
                         height = height img + 2 * py_int (of_int (height img) * r)\<rparr>"
  using assms(2)
  by (auto simp: add_border_effects try_body_effects[OF assms(1)]
           split: sum.splits option.splits if_splits
           dest!: expand_size expand_size[OF sym])

lemma add_border_writes:
  assumes "Image_open env i = Inr img"
    and "\<forall>b. expand_raises env img b = None" and "\<forall>im. save_raises env im o' = None"
    and "0 \<le> width img + 2 * py_int (of_int (width img) * r)"
    and "0 \<le> height img + 2 * py_int (of_int (height img) * r)"
  shows "Write o' \<lparr>width = width img + 2 * py_int (of_int (width img) * r),
                   height = height img + 2 * py_int (of_int (height img) * r)\<rparr>
           \<in> set (snd (add_border env i o' r))"
  using assms(2-)
  by (simp add: add_border_effects try_body_effects[OF assms(1)] expand_ok)



lemma floor_scaled_nonneg:
  fixes r :: rat
  shows "0 \<le> n \<Longrightarrow> 0 \<le> r \<Longrightarrow> 0 \<le> \<lfloor>of_int n * r\<rfloor>"
  by simp





text \<open>
  Claim C7. With \<open>border_ratio = 0\<close>, every image that \<open>add_border\<close> writes has the width
  and the height of the input image; and when neither \<open>expand\<close> nor \<open>save\<close> raises, such an
  image is written.
\<close>

theorem add_border_zero_ratio:
  assumes "Image_open env input_path = Inr img"
  shows "(\<forall>p out. Write p out \<in> set (snd (add_border env input_path output_path 0)) \<longrightarrow>
            p = output_path \<and> width out = width img \<and> height out = height img) \<and>
         ((\<forall>b. expand_raises env img b = None) \<and> (\<forall>im. save_raises env im output_path = None) \<and>
          0 \<le> width img \<and> 0 \<le> height img \<longrightarrow>
            (\<exists>out. Write output_path out \<in> set (snd (add_border env input_path output_path 0))))"
proof (intro conjI allI impI)
  fix p out
  assume "Write p out \<in> set (snd (add_border env input_path output_path 0))"
  from add_border_written[OF assms this]
  show "p = output_path" and "width out = width img" and "height out = height img"
    by (simp_all add: py_int_def)
next
  assume a: "(\<forall>b. expand_raises env img b = None) \<and> (\<forall>im. save_raises env im output_path = None) \<and>
             0 \<le> width img \<and> 0 \<le> height img"
  have "Write output_path
          \<lparr>width = width img + 2 * py_int (of_int (width img) * 0),
           height = height img + 2 * py_int (of_int (height img) * 0)\<rparr>
        \<in> set (snd (add_border env input_path output_path 0))"
    using a by (intro add_border_writes[OF assms]) (simp_all add: py_int_def)
  then show "\<exists>out. Write output_path out \<in> set (snd (add_border env input_path output_path 0))"
    by blast
qed

theorem add_border_zero_ratio_witness:
  "Image_open sample_pillow ''public/tag25h9-origin.png'' = Inr \<lparr>width = 10, height = 7\<rparr> \<and>
   (\<exists>out. Write ''out.png'' out
             \<in> set (snd (add_border sample_pillow ''public/tag25h9-origin.png'' ''out.png'' 0)) \<and>
      width out = 10 \<and> height out = 7)"
proof -
  have o: "Image_open sample_pillow ''public/tag25h9-origin.png'' = Inr \<lparr>width = 10, height = 7\<rparr>"
    by (simp add: sample_pillow_def)
  have r: "\<forall>b. expand_raises sample_pillow \<lparr>width = 10, height = 7\<rparr> b = None"
    "\<forall>im. save_raises sample_pillow im ''out.png'' = None"
    by (simp_all add: sample_pillow_def)
  show ?thesis
    using add_border_zero_ratio[OF o, of "''out.png''"] o r
    by simp blast
qed



lemma try_body_raises_failure:
  assumes "\<And>e. Image_open env i = Inl e \<Longrightarrow> is_Exception e"
    and "\<And>im b e. expand_raises env im b = Some e \<Longrightarrow> is_Exception e"
    and "\<And>im e. save_raises env im o' = Some e \<Longrightarrow> is_Exception e"
    and "fst (try_body env i o' r) = Inl e"
  shows "is_Exception e"
  using assms
  by (auto simp: try_body_def expand_def truediv_def Let_def
           split: sum.splits option.splits if_splits)

text \<open>
  Claim C3. When what the library raises are failures (instances of \<open>Exception\<close>),
  \<open>add_border\<close> returns normally on every input; and if a failure left the body of the
  \<open>try\<close>, in \<open>open\<close>, in the computation or in \<open>save\<close>, the effects are those of the body
  followed by one printed error line with the failure's message. The failures that the
  script raises itself (a negative size, a division by zero) are among them.
\<close>

theorem add_border_catches:
  assumes "\<forall>e. Image_open env input_path = Inl e \<longrightarrow> is_Exception e"
    and "\<forall>im b e. expand_raises env im b = Some e \<longrightarrow> is_Exception e"
    and "\<forall>im e. save_raises env im output_path = Some e \<longrightarrow> is_Exception e"
  shows "fst (add_border env input_path output_path border_ratio) = Inr () \<and>
         (\<forall>e. fst (try_body env input_path output_path border_ratio) = Inl e \<longrightarrow>
            snd (add_border env input_path output_path border_ratio) =
              snd (try_body env input_path output_path border_ratio) @ [Print (Error (str e))])"
proof -
  have f: "is_Exception e" if "fst (try_body env input_path output_path border_ratio) = Inl e" for e
    using assms that by (intro try_body_raises_failure[of env input_path output_path border_ratio e]) blast+
  show ?thesis
  proof (cases "fst (try_body env input_path output_path border_ratio)")
    case (Inl e)
    with f[OF Inl] show ?thesis
      by (cases "try_body env input_path output_path border_ratio") (simp add: add_border_def)
  next
    case (Inr u)
    then show ?thesis
      by (cases "try_body env input_path output_path border_ratio") (simp add: add_border_def)
  qed
qed

theorem add_border_catches_witness:
  "fst (try_body sample_pillow ''missing.png'' ''out.png'' (1 / 4)) =
     Inl (Failure ''FileNotFoundError'' ''No such file or directory'') \<and>
   add_border sample_pillow ''missing.png'' ''out.png'' (1 / 4) =
     (Inr (), [Print (Error ''No such file or directory'')])"
proof -
  have a: "\<forall>e. Image_open sample_pillow ''missing.png'' = Inl e \<longrightarrow> is_Exception e"
    "\<forall>im b e. expand_raises sample_pillow im b = Some e \<longrightarrow> is_Exception e"
    "\<forall>im e. save_raises sample_pillow im ''out.png'' = Some e \<longrightarrow> is_Exception e"
    by (auto simp: sample_pillow_def)
  have t: "try_body sample_pillow ''missing.png'' ''out.png'' (1 / 4) =
     (Inl (Failure ''FileNotFoundError'' ''No such file or directory''), [])"
    by (simp add: try_body_def sample_pillow_def)
  show ?thesis
    using add_border_catches[OF a, of "1 / 4"] t
    by (simp add: prod_eq_iff)
qed

text \<open>
  Claim C10. If opening the input image fails, \<open>add_border\<close> returns normally and its only
  effect is the printed error line: no write, no line with the size, no line with the
  width ratio.
\<close>

theorem add_border_open_fails:
  assumes "Image_open env input_path = Inl e" and "is_Exception e"
  shows "add_border env input_path output_path border_ratio = (Inr (), [Print (Error (str e))])"
  using assms by (simp add: add_border_def try_body_def)

theorem add_border_open_fails_witness:
  "Image_open sample_pillow ''missing.png'' = Inl (Failure ''FileNotFoundError'' ''No such file or directory'') \<and>
   is_Exception (Failure ''FileNotFoundError'' ''No such file or directory'') \<and>
   add_border sample_pillow ''missing.png'' ''public/tag-with-border.png'' (1 / 4) =
     (Inr (), [Print (Error ''No such file or directory'')])"
proof -
  have o: "Image_open sample_pillow ''missing.png'' =
             Inl (Failure ''FileNotFoundError'' ''No such file or directory'')"
    by (simp add: sample_pillow_def)
  show ?thesis
    using add_border_open_fails[OF o, of "''public/tag-with-border.png''" "1 / 4"] o
    by simp
qed

section \<open>Properties of JsonMerger\<close>

lemma lookup_append: "lookup h a = Some x \<Longrightarrow> lookup (h @ h') a = Some x"
  by (auto simp: lookup_def nth_append split: if_splits)

lemma lookup_length: "lookup (h @ x # h') (length h) = Some x"
  by (simp add: lookup_def)

lemma add_lists:
  "lookup h a = Some (PyList xs) \<Longrightarrow> lookup h b = Some (PyList ys) \<Longrightarrow>
   add h a b = Inr (length h, h @ [PyList (xs @ ys)])"
  by (simp add: add_def)

lemma add_heap: "add h a b = Inr (c, h') \<Longrightarrow> \<exists>x. h' = h @ [x]"
  by (auto simp: add_def split: option.splits obj.splits)

lemma merge_json_lists:
  assumes "lookup h data1 = Some (PyList xs)" and "lookup h data2 = Some (PyList ys)"
    and "lookup h data3 = Some (PyList zs)"
  shows "merge_json env h data1 data2 data3 =
     (let h2 = h @ [PyList (xs @ ys), PyList (xs @ ys @ zs)]; full_data = Suc (length h)
      in case open_raises env ''public/scene.json'' of
           Some e \<Rightarrow> (Inl e, h2, [])
         | None \<Rightarrow>
            (case dump_raises env h2 full_data of
               Some e \<Rightarrow> (Inl e, h2, [Opened ''public/scene.json''])
             | None \<Rightarrow>
                 (Inr (), h2,
                  [Opened ''public/scene.json'',
                   Dumped ''public/scene.json'' (xs @ ys @ zs) 2,
                   Printed (Merged (length xs + length ys + length zs) ''public/scene.json'')])))"
proof -
  have 1: "add h data1 data2 = Inr (length h, h @ [PyList (xs @ ys)])"
    using assms by (simp add: add_lists)
  have 2: "add (h @ [PyList (xs @ ys)]) (length h) data3 =
             Inr (Suc (length h), h @ [PyList (xs @ ys), PyList (xs @ ys @ zs)])"
    using add_lists[OF lookup_length[of h "PyList (xs @ ys)" "[]"] lookup_append[OF assms(3)]]
    by simp
  have 3: "lookup (h @ [PyList (xs @ ys), PyList (xs @ ys @ zs)]) (Suc (length h)) =
             Some (PyList (xs @ ys @ zs))"
    using lookup_length[of "h @ [PyList (xs @ ys)]" "PyList (xs @ ys @ zs)" "[]"] by simp
  show ?thesis
    by (simp add: merge_json_def 1 2 3 items_def len_def Let_def split: option.splits)
qed

lemma merge_json_heap:
  "take (length h) (fst (snd (merge_json env h data1 data2 data3))) = h"
  by (auto simp: merge_json_def split: sum.splits option.splits prod.splits dest!: add_heap)

text \<open>
  Claim C2. When \<open>data1\<close>, \<open>data2\<close> and \<open>data3\<close> are lists with the entries \<open>xs\<close>, \<open>ys\<close>
  and \<open>zs\<close>, every sequence that the script dumps is \<open>xs\<close>, then \<open>ys\<close>, then \<open>zs\<close>, and has
  \<open>length xs + length ys + length zs\<close> entries; and when neither \<open>open\<close> nor \<open>json.dump\<close>
  raises, that sequence is dumped to \<open>public/scene.json\<close> with indent 2.
\<close>

theorem merge_json_order:
  assumes "lookup h data1 = Some (PyList xs)" and "lookup h data2 = Some (PyList ys)"
    and "lookup h data3 = Some (PyList zs)"
  shows "(\<forall>p es k. Dumped p es k \<in> set (snd (snd (merge_json env h data1 data2 data3))) \<longrightarrow>
            es = xs @ ys @ zs \<and> length es = length xs + length ys + length zs) \<and>
         (open_raises env ''public/scene.json'' = None \<and> (\<forall>h' a. dump_raises env h' a = None) \<longrightarrow>
            Dumped ''public/scene.json'' (xs @ ys @ zs) 2
              \<in> set (snd (snd (merge_json env h data1 data2 data3))))"
  by (auto simp: merge_json_lists[OF assms] Let_def split: option.splits)

theorem merge_json_order_witness:
  "lookup scene_heap 3 = Some (PyList [0]) \<and> lookup scene_heap 4 = Some (PyList [1, 2]) \<and>
   lookup scene_heap 5 = Some (PyList []) \<and>
   Dumped ''public/scene.json'' [0, 1, 2] 2
     \<in> set (snd (snd (merge_json sample_system scene_heap 3 4 5)))"
proof -
  have l: "lookup scene_heap 3 = Some (PyList [0])" "lookup scene_heap 4 = Some (PyList [1, 2])"
    "lookup scene_heap 5 = Some (PyList [])"
    by (simp_all add: lookup_def scene_heap_def)
  have r: "open_raises (sample_system :: pyval system) ''public/scene.json'' = None"
    "\<forall>h' a. dump_raises (sample_system :: pyval system) h' a = None"
    by (simp_all add: sample_system_def)
  show ?thesis
    using merge_json_order[OF l, of sample_system] l r by simp
qed

text \<open>
  Claim C8. The count that the script prints is the number of merged records,
  \<open>length xs + length ys + length zs\<close>; and when neither \<open>open\<close> nor \<open>json.dump\<close> raises, it
  is printed. The witness is the example of the specification: the lists \<open>[{"id": 1}]\<close>,
  \<open>[{"id": 2}, {"id": 3}]\<close> and \<open>[]\<close> give the count 3.
\<close>

theorem merge_json_count:
  assumes "lookup h data1 = Some (PyList xs)" and "lookup h data2 = Some (PyList ys)"
    and "lookup h data3 = Some (PyList zs)"
  shows "(\<forall>n p. Printed (Merged n p) \<in> set (snd (snd (merge_json env h data1 data2 data3))) \<longrightarrow>
            n = length xs + length ys + length zs) \<and>
         (open_raises env ''public/scene.json'' = None \<and> (\<forall>h' a. dump_raises env h' a = None) \<longrightarrow>
            Printed (Merged (length xs + length ys + length zs) ''public/scene.json'')
              \<in> set (snd (snd (merge_json env h data1 data2 data3))))"
  by (auto simp: merge_json_lists[OF assms] Let_def split: option.splits)

theorem merge_json_count_witness:
  "lookup scene_heap 3 = Some (PyList [0]) \<and> lookup scene_heap 4 = Some (PyList [1, 2]) \<and>
   lookup scene_heap 5 = Some (PyList []) \<and>
   Printed (Merged 3 ''public/scene.json'')
     \<in> set (snd (snd (merge_json sample_system scene_heap 3 4 5)))"
proof -
  have l: "lookup scene_heap 3 = Some (PyList [0])" "lookup scene_heap 4 = Some (PyList [1, 2])"
    "lookup scene_heap 5 = Some (PyList [])"
    by (simp_all add: lookup_def scene_heap_def)
  have r: "open_raises (sample_system :: pyval system) ''public/scene.json'' = None"
    "\<forall>h' a. dump_raises (sample_system :: pyval system) h' a = None"
    by (simp_all add: sample_system_def)
  show ?thesis
    using merge_json_count[OF l, of sample_system] l r by (simp add: numeral_3_eq_3)
qed

text \<open>
  Claim C9. The merge leaves every object that existed before it as it was: the heap
  after the script starts with the heap before it, so the three input lists and every
  record are unchanged. What is dumped is \<open>xs @ ys @ zs\<close>: the same references, none
  dropped, none doubled, none moved, and each refers to the object it referred to
  before.
\<close>

theorem merge_json_frame:
  assumes "lookup h data1 = Some (PyList xs)" and "lookup h data2 = Some (PyList ys)"
    and "lookup h data3 = Some (PyList zs)"
    and "\<forall>a \<in> set (xs @ ys @ zs). a < length h"
  shows "take (length h) (fst (snd (merge_json env h data1 data2 data3))) = h \<and>
         lookup (fst (snd (merge_json env h data1 data2 data3))) data1 = Some (PyList xs) \<and>
         lookup (fst (snd (merge_json env h data1 data2 data3))) data2 = Some (PyList ys) \<and>
         lookup (fst (snd (merge_json env h data1 data2 data3))) data3 = Some (PyList zs) \<and>
         (\<forall>p es k. Dumped p es k \<in> set (snd (snd (merge_json env h data1 data2 data3))) \<longrightarrow>
            es = xs @ ys @ zs \<and>
            map (lookup (fst (snd (merge_json env h data1 data2 data3)))) es = map (lookup h) es)"
proof -
  let ?h2 = "h @ [PyList (xs @ ys), PyList (xs @ ys @ zs)]"
  have heap: "fst (snd (merge_json env h data1 data2 data3)) = ?h2"
    by (simp add: merge_json_lists[OF assms(1-3)] Let_def split: option.splits)
  have same: "lookup ?h2 a = lookup h a" if "a < length h" for a
    using that by (simp add: lookup_def nth_append)
  have entries: "map (lookup ?h2) (xs @ ys @ zs) = map (lookup h) (xs @ ys @ zs)"
    using assms(4) by (intro map_cong refl same) blast
  have dumped: "es = xs @ ys @ zs"
    if "Dumped p es k \<in> set (snd (snd (merge_json env h data1 data2 data3)))" for p es k
    using that by (auto simp: merge_json_lists[OF assms(1-3)] Let_def split: option.splits)
  show ?thesis
  proof (intro conjI allI impI)
    show "take (length h) (fst (snd (merge_json env h data1 data2 data3))) = h"
      by (simp add: heap)
    show "lookup (fst (snd (merge_json env h data1 data2 data3))) data1 = Some (PyList xs)"
      using assms(1) by (simp only: heap lookup_append)
    show "lookup (fst (snd (merge_json env h data1 data2 data3))) data2 = Some (PyList ys)"
      using assms(2) by (simp only: heap lookup_append)
    show "lookup (fst (snd (merge_json env h data1 data2 data3))) data3 = Some (PyList zs)"
      using assms(3) by (simp only: heap lookup_append)
  next
    fix p es k
    assume "Dumped p es k \<in> set (snd (snd (merge_json env h data1 data2 data3)))"
    then have es: "es = xs @ ys @ zs"
      by (rule dumped)
    show "es = xs @ ys @ zs"
      by (rule es)
    show "map (lookup (fst (snd (merge_json env h data1 data2 data3)))) es = map (lookup h) es"
      unfolding es heap by (rule entries)
  qed
qed

theorem merge_json_frame_witness:
  "lookup scene_heap 3 = Some (PyList [0]) \<and> lookup scene_heap 4 = Some (PyList [1, 2]) \<and>
   lookup scene_heap 5 = Some (PyList []) \<and>
   take 6 (fst (snd (merge_json sample_system scene_heap 3 4 5))) = scene_heap \<and>
   lookup (fst (snd (merge_json sample_system scene_heap 3 4 5))) 4 = Some (PyList [1, 2]) \<and>
   (\<exists>es. Dumped ''public/scene.json'' es 2
            \<in> set (snd (snd (merge_json sample_system scene_heap 3 4 5))) \<and>
      es = [0, 1, 2] \<and>
      map (lookup (fst (snd (merge_json sample_system scene_heap 3 4 5)))) es =
        [Some (Record (VDict [(''id'', VInt 1)])), Some (Record (VDict [(''id'', VInt 2)])), Some (Record (VDict [(''id'', VInt 3)]))])"
proof -
  have l: "lookup scene_heap 3 = Some (PyList [0])" "lookup scene_heap 4 = Some (PyList [1, 2])"
    "lookup scene_heap 5 = Some (PyList [])"
    by (simp_all add: lookup_def scene_heap_def)
  have a: "\<forall>a \<in> set ([0] @ [1, 2] @ []). a < length scene_heap"
    by (simp add: scene_heap_def)
  have n: "length scene_heap = 6"
    by (simp add: scene_heap_def)
  have m: "map (lookup scene_heap) ([0] @ [1, 2] @ []) =
             [Some (Record (VDict [(''id'', VInt 1)])), Some (Record (VDict [(''id'', VInt 2)])), Some (Record (VDict [(''id'', VInt 3)]))]"
    by (simp add: lookup_def scene_heap_def)
  have d: "Dumped ''public/scene.json'' ([0] @ [1, 2] @ []) 2
             \<in> set (snd (snd (merge_json sample_system scene_heap 3 4 5)))"
    by (simp add: merge_json_lists[OF l] Let_def sample_system_def)
  note t = merge_json_frame[OF l a, of sample_system, unfolded n]
  from t d have "map (lookup (fst (snd (merge_json sample_system scene_heap 3 4 5)))) ([0] @ [1, 2] @ []) =
             map (lookup scene_heap) ([0] @ [1, 2] @ [])"
    by blast
  with m have e: "map (lookup (fst (snd (merge_json sample_system scene_heap 3 4 5)))) [0, 1, 2] =
        [Some (Record (VDict [(''id'', VInt 1)])), Some (Record (VDict [(''id'', VInt 2)])), Some (Record (VDict [(''id'', VInt 3)]))]"
    by simp
  from d have d': "Dumped ''public/scene.json'' [0, 1, 2] 2
             \<in> set (snd (snd (merge_json sample_system scene_heap 3 4 5)))"
    by simp
  from t have t1: "take 6 (fst (snd (merge_json sample_system scene_heap 3 4 5))) = scene_heap"
    and t2: "lookup (fst (snd (merge_json sample_system scene_heap 3 4 5))) 4 = Some (PyList [1, 2])"
    by simp_all
  show ?thesis
    using l t1 t2 d' e by simp
qed

text \<open>
  Claim C6. The script handles no error. What the first or the second concatenation
  raises, what \<open>open\<close> raises and what \<open>json.dump\<close> raises is what the script ends with;
  nothing is printed and nothing is dumped then, the only effect left can be the
  opened (emptied) output file, no operation is tried twice, and after a failure the
  status of the process is 1.
\<close>

theorem merge_json_propagates:
  "(\<forall>e. add h data1 data2 = Inl e \<longrightarrow>
      merge_json env h data1 data2 data3 = (Inl e, h, [])) \<and>
   (\<forall>tmp h1 e. add h data1 data2 = Inr (tmp, h1) \<and> add h1 tmp data3 = Inl e \<longrightarrow>
      merge_json env h data1 data2 data3 = (Inl e, h1, [])) \<and>
   (\<forall>tmp h1 full_data h2 e.
      add h data1 data2 = Inr (tmp, h1) \<and> add h1 tmp data3 = Inr (full_data, h2) \<and>
      open_raises env ''public/scene.json'' = Some e \<longrightarrow>
      merge_json env h data1 data2 data3 = (Inl e, h2, [])) \<and>
   (\<forall>tmp h1 full_data h2 e.
      add h data1 data2 = Inr (tmp, h1) \<and> add h1 tmp data3 = Inr (full_data, h2) \<and>
      open_raises env ''public/scene.json'' = None \<and> dump_raises env h2 full_data = Some e \<longrightarrow>
      merge_json env h data1 data2 data3 = (Inl e, h2, [Opened ''public/scene.json''])) \<and>
   (\<forall>e. fst (merge_json env h data1 data2 data3) = Inl e \<longrightarrow>
      (snd (snd (merge_json env h data1 data2 data3)) = [] \<or>
       snd (snd (merge_json env h data1 data2 data3)) = [Opened ''public/scene.json'']) \<and>
      (is_Exception e \<longrightarrow> exit_status (fst (merge_json env h data1 data2 data3)) = 1))"
proof (intro conjI allI impI)
  fix e
  assume "fst (merge_json env h data1 data2 data3) = Inl e"
  then show "snd (snd (merge_json env h data1 data2 data3)) = [] \<or>
       snd (snd (merge_json env h data1 data2 data3)) = [Opened ''public/scene.json'']"
    by (auto simp: merge_json_def split: sum.splits option.splits prod.splits)
next
  fix e
  assume "fst (merge_json env h data1 data2 data3) = Inl e" and "is_Exception e"
  then show "exit_status (fst (merge_json env h data1 data2 data3)) = 1"
    by (cases e) simp_all
qed (auto simp: merge_json_def)

theorem merge_json_propagates_witness:
  "merge_json readonly_system scene_heap 3 4 5 =
     (Inl (Failure ''PermissionError'' ''Permission denied''),
      scene_heap @ [PyList [0, 1, 2], PyList [0, 1, 2]], []) \<and>
   exit_status (fst (merge_json readonly_system scene_heap 3 4 5)) = 1 \<and>
   merge_json sample_system scene_heap 3 0 5 =
     (Inl (Failure ''TypeError'' ''can only concatenate list to list''), scene_heap, [])"
proof -
  let ?e = "Failure ''PermissionError'' ''Permission denied''"
  let ?t = "Failure ''TypeError'' ''can only concatenate list to list''"
  have 1: "add scene_heap 3 4 = Inr (6, scene_heap @ [PyList [0, 1, 2]])"
    by (simp add: add_def lookup_def scene_heap_def)
  have 2: "add (scene_heap @ [PyList [0, 1, 2]]) 6 5 =
             Inr (7, scene_heap @ [PyList [0, 1, 2], PyList [0, 1, 2]])"
    by (simp add: add_def lookup_def scene_heap_def)
  have 3: "open_raises (readonly_system :: pyval system) ''public/scene.json'' = Some ?e"
    by (simp add: readonly_system_def)
  have 4: "add scene_heap 3 0 = Inl ?t"
    by (simp add: add_def lookup_def scene_heap_def)
  note p = merge_json_propagates[of scene_heap 3 4 readonly_system 5]
  note q = merge_json_propagates[of scene_heap 3 0 sample_system 5]
  have a: "merge_json readonly_system scene_heap 3 4 5 =
     (Inl ?e, scene_heap @ [PyList [0, 1, 2], PyList [0, 1, 2]], [])"
    using p 1 2 3 by blast
  have b: "exit_status (fst (merge_json readonly_system scene_heap 3 4 5)) = 1"
    using p a by simp
  have c: "merge_json sample_system scene_heap 3 0 5 = (Inl ?t, scene_heap, [])"
    using q 4 by blast
  show ?thesis
    using a b c by blast
qed

section \<open>The JSON document\<close>






















lemma delimited_hd: "delimited r \<Longrightarrow> r = c # cs \<Longrightarrow> c = CHR '','' \<or> c = newline"
  by (simp add: delimited_def)















































end
